theory Spec2Isabelle
  imports Complex_Main
begin

section \<open>Income tax calculator (src/app/page.tsx): data model\<close>

text \<open>
  The page component keeps its inputs and results in React state and computes the two
  regime taxes with closures over that state. The embedding passes the state explicitly.
  A JavaScript \<open>number\<close> is modelled as an exact rational; the only non-finite number
  the tables use, \<open>Infinity\<close> as the upper bound of the last slab, is a constructor of
  its own. Rounding of IEEE doubles is outside the model.
\<close>

datatype bound = Finite rat | Infinity

text \<open>
  \<open>type TaxSlab = { min; max; rate; fixedAmount?; surcharge? }\<close>. The fields \<open>min\<close>
  and \<open>max\<close> are called \<open>slab_min\<close> and \<open>slab_max\<close> here; an optional field is an
  \<open>option\<close>.
\<close>

record TaxSlab =
  slab_min :: rat
  slab_max :: bound
  rate :: rat
  fixedAmount :: "rat option"
  surcharge :: "rat option"

definition mkSlab :: "rat \<Rightarrow> bound \<Rightarrow> rat \<Rightarrow> TaxSlab" where
  "mkSlab lo hi r =
     \<lparr>slab_min = lo, slab_max = hi, rate = r, fixedAmount = None, surcharge = None\<rparr>"

definition NEW_REGIME_SLABS :: "TaxSlab list" where
  "NEW_REGIME_SLABS =
     [mkSlab 0 (Finite 400000) 0,
      mkSlab 400001 (Finite 800000) 5,
      mkSlab 800001 (Finite 1200000) 10,
      mkSlab 1200001 (Finite 1600000) 15,
      mkSlab 1600001 (Finite 2000000) 20,
      mkSlab 2000001 (Finite 2400000) 25,
      mkSlab 2400001 Infinity 30]"

definition OLD_REGIME_SLABS :: "TaxSlab list" where
  "OLD_REGIME_SLABS =
     [mkSlab 0 (Finite 300000) 0,
      mkSlab 300001 (Finite 700000) 5,
      mkSlab 700001 (Finite 1000000) 10,
      mkSlab 1000001 (Finite 1200000) 15,
      mkSlab 1200001 (Finite 1500000) 20,
      mkSlab 1500001 Infinity 30]"

definition STANDARD_DEDUCTION :: rat where
  "STANDARD_DEDUCTION = 75000"

definition OLD_REGIME_STANDARD_DEDUCTION :: rat where
  "OLD_REGIME_STANDARD_DEDUCTION = 50000"

definition SECTION_80C_LIMIT :: rat where
  "SECTION_80C_LIMIT = 150000"

definition SECTION_80CCD_LIMIT :: rat where
  "SECTION_80CCD_LIMIT = 50000"

definition SECTION_80TTA_LIMIT :: rat where
  "SECTION_80TTA_LIMIT = 10000"

definition SECTION_80G_LIMIT :: rat where
  "SECTION_80G_LIMIT = 100000"

record SalaryDetails =
  basic :: rat
  hraReceived :: rat
  rentPaid :: rat
  metroCity :: bool

record Section80D =
  self :: rat
  parents :: rat
  parentsSenior :: bool

record HomeLoan =
  principal :: rat
  interest :: rat

record Deductions =
  section80C :: rat
  section80D :: Section80D
  section80CCD :: rat
  section80TTA :: rat
  section80G :: rat
  hra :: rat
  nps :: rat
  educationLoan :: rat
  homeLoan :: HomeLoan

text \<open>The \<open>useState\<close> cells of \<open>Home\<close> that the computation reads or writes.\<close>

record HomeState =
  income :: rat
  salaryDetails :: SalaryDetails
  deductions :: Deductions
  newRegimeTax :: rat
  oldRegimeTax :: rat

definition initialSalaryDetails :: SalaryDetails where
  "initialSalaryDetails =
     \<lparr>basic = 0, hraReceived = 0, rentPaid = 0, metroCity = False\<rparr>"

definition initialDeductions :: Deductions where
  "initialDeductions =
     \<lparr>section80C = 0,
      section80D = \<lparr>self = 0, parents = 0, parentsSenior = False\<rparr>,
      section80CCD = 0, section80TTA = 0, section80G = 0, hra = 0, nps = 0,
      educationLoan = 0,
      homeLoan = \<lparr>principal = 0, interest = 0\<rparr>\<rparr>"

definition initialState :: HomeState where
  "initialState =
     \<lparr>income = 0, salaryDetails = initialSalaryDetails, deductions = initialDeductions,
      newRegimeTax = 0, oldRegimeTax = 0\<rparr>"

section \<open>The calculation functions\<close>

text \<open>\<open>calculateHRA\<close>: the least of the three rules, \<open>Math.min(rule1, rule2, rule3)\<close>.\<close>

definition calculateHRA :: "HomeState \<Rightarrow> rat" where
  "calculateHRA s =
     (let sd = salaryDetails s;
          rule1 = hraReceived sd;
          rule2 = (if metroCity sd then 0.5 else 0.4) * basic sd;
          rule3 = max 0 (rentPaid sd - 0.1 * basic sd)
      in min rule1 (min rule2 rule3))"

text \<open>
  \<open>calculateHomeLoanDeductions\<close> returns \<open>{ principal, interest, total }\<close>; the fields
  of the result carry the names of the locals they are filled from.
\<close>

record HomeLoanDeductions =
  principalDeduction :: rat
  interestDeduction :: rat
  total :: rat

definition calculateHomeLoanDeductions :: "HomeState \<Rightarrow> HomeLoanDeductions" where
  "calculateHomeLoanDeductions s =
     (let d = deductions s;
          pd = min (principal (homeLoan d)) (SECTION_80C_LIMIT - section80C d);
          idn = min (interest (homeLoan d)) 200000
      in \<lparr>principalDeduction = pd, interestDeduction = idn, total = pd + idn\<rparr>)"

text \<open>
  \<open>calculateTax\<close>. One pass of the loop body is split into the amount the slab takes
  (\<open>taxableAmount\<close>) and the update of the running total (\<open>applySlab\<close>);
  \<open>slab.fixedAmount || 0\<close> reads an absent field as 0, and
  \<open>'surcharge' in slab && slab.surcharge\<close> holds for a present, non-zero surcharge.
\<close>

definition taxableAmount :: "rat \<Rightarrow> TaxSlab \<Rightarrow> rat" where
  "taxableAmount remainingIncome slab =
     min remainingIncome
       (case slab_max slab of
          Infinity \<Rightarrow> remainingIncome
        | Finite m \<Rightarrow> m - slab_min slab + 1)"

definition applySlab :: "rat \<Rightarrow> rat \<Rightarrow> TaxSlab \<Rightarrow> rat" where
  "applySlab totalTax amount slab =
     (let baseTax = (case fixedAmount slab of None \<Rightarrow> 0 | Some f \<Rightarrow> f);
          rateTax = (amount * rate slab) / 100;
          totalTax1 = totalTax + (baseTax + rateTax)
      in case surcharge slab of
           None \<Rightarrow> totalTax1
         | Some sc \<Rightarrow>
             if sc \<noteq> 0 then totalTax1 + (totalTax1 * sc) / 100 else totalTax1)"

fun calculateTax_loop :: "rat \<Rightarrow> rat \<Rightarrow> TaxSlab list \<Rightarrow> rat" where
  "calculateTax_loop totalTax remainingIncome [] = totalTax"
| "calculateTax_loop totalTax remainingIncome (slab # slabs) =
     (if remainingIncome \<le> 0 then totalTax
      else calculateTax_loop
             (applySlab totalTax (taxableAmount remainingIncome slab) slab)
             (remainingIncome - taxableAmount remainingIncome slab)
             slabs)"

definition calculateTax :: "rat \<Rightarrow> TaxSlab list \<Rightarrow> rat" where
  "calculateTax inc slabs = calculateTax_loop 0 inc slabs"

text \<open>
  \<open>calculateOldRegimeTax\<close>. The Section 80D deduction and the combined Section 80C term
  are the sub-expressions of lines 146-149 and 156; \<open>oldRegimeTaxableIncome\<close> is the
  local \<open>taxableIncome\<close>.
\<close>

definition section80DDeduction :: "HomeState \<Rightarrow> rat" where
  "section80DDeduction s =
     (let d80 = section80D (deductions s);
          selfAndFamilyLimit = 25000;
          parentsLimit = (if parentsSenior d80 then 50000 else 25000);
          total80DLimit = selfAndFamilyLimit + parentsLimit
      in min total80DLimit (self d80 + parents d80))"

definition combined80CDeduction :: "HomeState \<Rightarrow> rat" where
  "combined80CDeduction s =
     min (section80C (deductions s)
            + principalDeduction (calculateHomeLoanDeductions s))
         SECTION_80C_LIMIT"

definition oldRegimeTaxableIncome :: "HomeState \<Rightarrow> rat \<Rightarrow> rat" where
  "oldRegimeTaxableIncome s inc =
     (let d = deductions s in
      max 0
        (inc
         - OLD_REGIME_STANDARD_DEDUCTION
         - combined80CDeduction s
         - section80DDeduction s
         - min (section80CCD d) SECTION_80CCD_LIMIT
         - min (section80TTA d) SECTION_80TTA_LIMIT
         - min (section80G d) SECTION_80G_LIMIT
         - calculateHRA s
         - nps d
         - educationLoan d
         - interestDeduction (calculateHomeLoanDeductions s)))"

definition calculateOldRegimeTax :: "HomeState \<Rightarrow> rat \<Rightarrow> rat" where
  "calculateOldRegimeTax s inc = calculateTax (oldRegimeTaxableIncome s inc) OLD_REGIME_SLABS"

text \<open>
  \<open>handleIncomeChange\<close>. The text of the input field is empty, or \<open>parseFloat\<close> reads a
  number from it, or it yields \<open>NaN\<close> and the state is left alone.
\<close>

datatype TextInput = EmptyText | Parsed rat | NotANumber

fun handleIncomeChange :: "TextInput \<Rightarrow> HomeState \<Rightarrow> HomeState" where
  "handleIncomeChange EmptyText s =
     s\<lparr>income := 0, newRegimeTax := 0, oldRegimeTax := 0\<rparr>"
| "handleIncomeChange (Parsed numValue) s =
     s\<lparr>income := numValue,
       newRegimeTax := calculateTax numValue NEW_REGIME_SLABS,
       oldRegimeTax := calculateOldRegimeTax s numValue\<rparr>"
| "handleIncomeChange NotANumber s = s"

section \<open>The report\<close>

text \<open>
  The summary line "Total Deductions (Old Regime)" (lines 782-796) and its Section 80D
  term (lines 785-788).
\<close>

definition display80D :: "HomeState \<Rightarrow> rat" where
  "display80D s =
     (let d80 = section80D (deductions s)
      in min (self d80 + parents d80) (if parentsSenior d80 then 75000 else 50000))"

definition totalDeductionsDisplay :: "HomeState \<Rightarrow> rat" where
  "totalDeductionsDisplay s =
     (let d = deductions s in
      OLD_REGIME_STANDARD_DEDUCTION
      + min (section80C d) SECTION_80C_LIMIT
      + display80D s
      + min (section80CCD d) SECTION_80CCD_LIMIT
      + min (section80TTA d) SECTION_80TTA_LIMIT
      + min (section80G d) SECTION_80G_LIMIT
      + calculateHRA s
      + nps d
      + educationLoan d
      + min (interest (homeLoan d)) 200000)"

text \<open>The line "Recommended Regime" (lines 810-813).\<close>

datatype Regime = NewRegime | OldRegime

definition recommendedRegime :: "HomeState \<Rightarrow> Regime" where
  "recommendedRegime s = (if newRegimeTax s < oldRegimeTax s then NewRegime else OldRegime)"


section \<open>Evaluation of the shipped tables\<close>

lemmas limit_defs =
  STANDARD_DEDUCTION_def OLD_REGIME_STANDARD_DEDUCTION_def SECTION_80C_LIMIT_def
  SECTION_80CCD_LIMIT_def SECTION_80TTA_LIMIT_def SECTION_80G_LIMIT_def

lemmas tax_defs =
  calculateTax_def NEW_REGIME_SLABS_def OLD_REGIME_SLABS_def mkSlab_def
  taxableAmount_def applySlab_def

lemmas initial_defs =
  initialState_def initialDeductions_def initialSalaryDetails_def

lemma handleIncomeChange_newRegimeTax:
  "newRegimeTax (handleIncomeChange (Parsed n) s) = calculateTax n NEW_REGIME_SLABS"
  by simp

lemma calculateTax_loop_nonpositive:
  "remainingIncome \<le> 0 \<Longrightarrow> calculateTax_loop totalTax remainingIncome slabs = totalTax"
  by (cases slabs) simp_all

lemma principalDeduction_plus_section80C:
  "section80C (deductions s) + principalDeduction (calculateHomeLoanDeductions s) =
     min (section80C (deductions s) + principal (homeLoan (deductions s))) 150000"
  by (simp add: calculateHomeLoanDeductions_def SECTION_80C_LIMIT_def Let_def min_def)

lemma interestDeduction_eq:
  "interestDeduction (calculateHomeLoanDeductions s) =
     min (interest (homeLoan (deductions s))) 200000"
  by (simp add: calculateHomeLoanDeductions_def Let_def)

section \<open>New regime\<close>

text \<open>
  Claim C1. The claim: the new-regime tax is the slab tax on
  \<open>max(0, grossIncome - 75000)\<close>. \<open>handleIncomeChange\<close> passes the gross income itself
  to \<open>calculateTax\<close>: for an income of 500000 it stores 4999.95, where the slab tax on
  the income less the standard deduction of 75000 is 1249.95.
\<close>

theorem handleIncomeChange_skips_standard_deduction:
  "newRegimeTax (handleIncomeChange (Parsed 500000) initialState) = 4999.95
   \<and> calculateTax (max 0 (500000 - STANDARD_DEDUCTION)) NEW_REGIME_SLABS = 1249.95"
  by (simp add: tax_defs STANDARD_DEDUCTION_def)

text \<open>
  Claim C2. The claim: the slab tax over the new-regime table is 0 at 400000 and 0.05 at
  400001. The first slab, from 0 to 400000, is given the width \<open>400000 - 0 + 1\<close>, so it
  takes 400001 rupees at the rate 0: the tax at 400001 is 0, and 0.05 is reached at
  400002.
\<close>

theorem calculateTax_new_regime_boundary:
  "calculateTax 400000 NEW_REGIME_SLABS = 0
   \<and> calculateTax 400001 NEW_REGIME_SLABS = 0
   \<and> calculateTax 400002 NEW_REGIME_SLABS = 0.05"
  by (simp add: tax_defs)

section \<open>Section 80D\<close>

text \<open>
  Claim C3, as stated: with premiums 30000 (self) and 40000 (parents, senior) the
  Section 80D deduction is 75000. It is not.
\<close>

theorem section80DDeduction_not_75000:
  "section80DDeduction
     (initialState\<lparr>deductions := initialDeductions
        \<lparr>section80D := \<lparr>self = 30000, parents = 40000, parentsSenior = True\<rparr>\<rparr>\<rparr>)
   \<noteq> 75000"
  by (simp add: section80DDeduction_def initial_defs)

text \<open>
  Claim C3, amended: with senior parents the Section 80D deduction used in the old-regime
  taxable-income computation has the ceiling 75000, the self-and-family limit 25000 plus
  the parents limit 50000. It is never more than 75000 and never more than the premiums
  paid; it is the premiums paid when each premium is within its own limit, and 75000
  when each premium reaches its own limit. For premiums 30000 (self) and 40000
  (parents) it is therefore at most 70000, and not 75000. The deduction is subtracted
  from the income together with the standard deduction and the other deductions, and
  the taxable income is floored at 0.
\<close>

theorem section80DDeduction_ceiling:
  assumes "parentsSenior (section80D (deductions s))"
  shows "section80DDeduction s \<le> 75000
         \<and> section80DDeduction s
             \<le> self (section80D (deductions s)) + parents (section80D (deductions s))
         \<and> (self (section80D (deductions s)) \<le> 25000
              \<and> parents (section80D (deductions s)) \<le> 50000 \<longrightarrow>
            section80DDeduction s
              = self (section80D (deductions s)) + parents (section80D (deductions s)))
         \<and> (25000 \<le> self (section80D (deductions s))
              \<and> 50000 \<le> parents (section80D (deductions s)) \<longrightarrow>
            section80DDeduction s = 75000)
         \<and> (self (section80D (deductions s)) = 30000
              \<and> parents (section80D (deductions s)) = 40000 \<longrightarrow>
            section80DDeduction s \<le> 70000 \<and> section80DDeduction s \<noteq> 75000)
         \<and> oldRegimeTaxableIncome s inc =
             max 0 (inc - 50000 - combined80CDeduction s - section80DDeduction s
                    - min (section80CCD (deductions s)) 50000
                    - min (section80TTA (deductions s)) 10000
                    - min (section80G (deductions s)) 100000
                    - calculateHRA s - nps (deductions s) - educationLoan (deductions s)
                    - min (interest (homeLoan (deductions s))) 200000)"
  using assms
  by (simp add: section80DDeduction_def oldRegimeTaxableIncome_def limit_defs Let_def
        interestDeduction_eq)

theorem section80DDeduction_ceiling_witness:
  "section80DDeduction
     (initialState\<lparr>deductions := initialDeductions
        \<lparr>section80D := \<lparr>self = 30000, parents = 40000, parentsSenior = True\<rparr>\<rparr>\<rparr>)
   \<le> 70000
   \<and> section80DDeduction
     (initialState\<lparr>deductions := initialDeductions
        \<lparr>section80D := \<lparr>self = 20000, parents = 40000, parentsSenior = True\<rparr>\<rparr>\<rparr>)
   = 60000
   \<and> section80DDeduction
     (initialState\<lparr>deductions := initialDeductions
        \<lparr>section80D := \<lparr>self = 30000, parents = 60000, parentsSenior = True\<rparr>\<rparr>\<rparr>)
   = 75000"
proof -
  let ?a = "initialState\<lparr>deductions := initialDeductions
        \<lparr>section80D := \<lparr>self = 30000, parents = 40000, parentsSenior = True\<rparr>\<rparr>\<rparr>"
  let ?b = "initialState\<lparr>deductions := initialDeductions
        \<lparr>section80D := \<lparr>self = 20000, parents = 40000, parentsSenior = True\<rparr>\<rparr>\<rparr>"
  let ?c = "initialState\<lparr>deductions := initialDeductions
        \<lparr>section80D := \<lparr>self = 30000, parents = 60000, parentsSenior = True\<rparr>\<rparr>\<rparr>"
  have ha: "parentsSenior (section80D (deductions ?a))"
    and hb: "parentsSenior (section80D (deductions ?b))"
    and hc: "parentsSenior (section80D (deductions ?c))"
    by simp_all
  have fa: "self (section80D (deductions ?a)) = 30000"
    "parents (section80D (deductions ?a)) = 40000"
    by simp_all
  have fb: "self (section80D (deductions ?b)) = 20000"
    "parents (section80D (deductions ?b)) = 40000"
    by simp_all
  have fc: "self (section80D (deductions ?c)) = 30000"
    "parents (section80D (deductions ?c)) = 60000"
    by simp_all
  have a: "section80DDeduction ?a \<le> 70000"
    using section80DDeduction_ceiling [OF ha, of 0] by (simp add: fa)
  have b: "section80DDeduction ?b = 60000"
    using section80DDeduction_ceiling [OF hb, of 0] by (simp add: fb)
  have c: "section80DDeduction ?c = 75000"
    using section80DDeduction_ceiling [OF hc, of 0] by (simp add: fc)
  from a b c show ?thesis by blast
qed

text \<open>
  Claim C4, as stated: for some inputs the Section 80D amount of the summary line
  "Total Deductions" differs from the Section 80D deduction of the taxable-income
  computation. There are no such inputs.
\<close>

theorem display80D_never_differs:
  "\<not> (\<exists>s. display80D s \<noteq> section80DDeduction s)"
  by (simp add: display80D_def section80DDeduction_def Let_def min.commute)

text \<open>
  Claim C4, amended: for all inputs the Section 80D amount of the summary line equals
  the Section 80D deduction of the taxable-income computation; the bound of the summary
  (75000 for senior parents, else 50000) is the sum \<open>25000 + parentsLimit\<close> of the
  other formula.
\<close>

theorem display80D_eq_section80DDeduction:
  "display80D s = section80DDeduction s"
  by (simp add: display80D_def section80DDeduction_def Let_def min.commute)

section \<open>The slab loop\<close>

text \<open>
  Claim C5. For a slab that carries a (non-zero) surcharge percentage, the new running
  total is the old running total plus the slab's own fixed amount and rate tax, plus the
  surcharge percentage of that whole sum (not of the slab's contribution alone). The
  loop goes on to the next slab with this total, and returns it when there is no next
  slab.
\<close>

theorem calculateTax_surcharge_on_running_total:
  assumes "surcharge slab = Some sc" and "sc \<noteq> 0"
  shows "applySlab totalTax amount slab =
           (totalTax + (case fixedAmount slab of None \<Rightarrow> 0 | Some f \<Rightarrow> f)
              + amount * rate slab / 100)
           + (totalTax + (case fixedAmount slab of None \<Rightarrow> 0 | Some f \<Rightarrow> f)
                + amount * rate slab / 100) * sc / 100
         \<and> calculateTax_loop totalTax remainingIncome [] = totalTax
         \<and> (0 < remainingIncome \<longrightarrow>
              calculateTax_loop totalTax remainingIncome [slab] =
                (totalTax + (case fixedAmount slab of None \<Rightarrow> 0 | Some f \<Rightarrow> f)
                   + taxableAmount remainingIncome slab * rate slab / 100)
                + (totalTax + (case fixedAmount slab of None \<Rightarrow> 0 | Some f \<Rightarrow> f)
                     + taxableAmount remainingIncome slab * rate slab / 100) * sc / 100)
         \<and> (0 < remainingIncome \<longrightarrow>
              calculateTax_loop totalTax remainingIncome (slab # slabs) =
                calculateTax_loop
                  ((totalTax + (case fixedAmount slab of None \<Rightarrow> 0 | Some f \<Rightarrow> f)
                      + taxableAmount remainingIncome slab * rate slab / 100)
                   + (totalTax + (case fixedAmount slab of None \<Rightarrow> 0 | Some f \<Rightarrow> f)
                        + taxableAmount remainingIncome slab * rate slab / 100) * sc / 100)
                  (remainingIncome - taxableAmount remainingIncome slab)
                  slabs)"
  using assms by (simp add: applySlab_def Let_def add.assoc)

theorem calculateTax_surcharge_on_running_total_witness:
  "surcharge ((mkSlab 100 (Finite 199) 20)\<lparr>surcharge := Some 10\<rparr>) = Some 10
   \<and> (10::rat) \<noteq> 0
   \<and> applySlab 10 100 ((mkSlab 100 (Finite 199) 20)\<lparr>surcharge := Some 10\<rparr>) = 33
   \<and> calculateTax_loop 10 300
       [(mkSlab 100 (Finite 199) 20)\<lparr>surcharge := Some 10\<rparr>, mkSlab 200 Infinity 30]
     = calculateTax_loop 33 200 [mkSlab 200 Infinity 30]
   \<and> calculateTax_loop 33 200 [mkSlab 200 Infinity 30] = 93
   \<and> calculateTax 400
       [mkSlab 0 (Finite 99) 10,
        (mkSlab 100 (Finite 199) 20)\<lparr>surcharge := Some 10\<rparr>,
        mkSlab 200 Infinity 30]
     = 93"
proof -
  let ?sl = "(mkSlab 100 (Finite 199) 20)\<lparr>surcharge := Some 10\<rparr>"
  have h1: "surcharge ?sl = Some 10" by (simp add: mkSlab_def)
  have h2: "(10::rat) \<noteq> 0" by simp
  have a: "taxableAmount 300 ?sl = 100" by (simp add: taxableAmount_def mkSlab_def)
  have f: "fixedAmount ?sl = None" "rate ?sl = 20" by (simp_all add: mkSlab_def)
  have e1: "applySlab 10 100 ?sl = 33"
    using calculateTax_surcharge_on_running_total [OF h1 h2, of 10 100 0 "[]"]
    by (simp only: f) simp
  have e2: "calculateTax_loop 10 300 [?sl, mkSlab 200 Infinity 30]
              = calculateTax_loop 33 200 [mkSlab 200 Infinity 30]"
    using calculateTax_surcharge_on_running_total
      [OF h1 h2, of 10 0 300 "[mkSlab 200 Infinity 30]"]
    by (simp only: a f) simp
  have e3: "calculateTax_loop 33 200 [mkSlab 200 Infinity 30] = 93"
    by (simp add: mkSlab_def taxableAmount_def applySlab_def)
  have g: "calculateTax 400 [mkSlab 0 (Finite 99) 10, ?sl, mkSlab 200 Infinity 30] = 93"
    by (simp add: tax_defs)
  from h1 h2 e1 e2 e3 g show ?thesis by blast
qed

text \<open>
  Claim C6. \<open>calculateTax\<close> runs the loop from a total of 0 and the whole income over the
  slabs in the order of the table. The loop returns the total when the table is
  exhausted, and stops as soon as the remaining income is not positive; a slab with a
  finite upper bound takes \<open>min(remainingIncome, max - min + 1)\<close> and hands the rest to
  the following slabs; the unbounded slab takes all the remaining income, so that
  nothing is left for any slab after it.
\<close>

theorem calculateTax_slab_iteration:
  "calculateTax inc slabs = calculateTax_loop 0 inc slabs
   \<and> calculateTax_loop totalTax remainingIncome [] = totalTax
   \<and> (remainingIncome \<le> 0 \<longrightarrow>
        calculateTax_loop totalTax remainingIncome (slab # rest) = totalTax)
   \<and> (0 < remainingIncome \<and> slab_max slab = Finite m \<longrightarrow>
        taxableAmount remainingIncome slab = min remainingIncome (m - slab_min slab + 1)
        \<and> calculateTax_loop totalTax remainingIncome (slab # rest) =
            calculateTax_loop
              (applySlab totalTax (min remainingIncome (m - slab_min slab + 1)) slab)
              (remainingIncome - min remainingIncome (m - slab_min slab + 1))
              rest)
   \<and> (0 < remainingIncome \<and> slab_max slab = Infinity \<longrightarrow>
        taxableAmount remainingIncome slab = remainingIncome
        \<and> calculateTax_loop totalTax remainingIncome (slab # rest) =
            applySlab totalTax remainingIncome slab)"
  by (simp add: calculateTax_def taxableAmount_def calculateTax_loop_nonpositive)

theorem calculateTax_slab_iteration_witness:
  "calculateTax_loop 7 0 (mkSlab 0 (Finite 400000) 0 # tl NEW_REGIME_SLABS) = 7
   \<and> calculateTax_loop 0 500000 (mkSlab 0 (Finite 400000) 0 # tl NEW_REGIME_SLABS) =
       calculateTax_loop 0 99999 (tl NEW_REGIME_SLABS)
   \<and> calculateTax_loop 0 3000000 [mkSlab 2400001 Infinity 30, mkSlab 0 (Finite 9) 50] =
       900000"
proof -
  have a: "calculateTax_loop 7 0 (mkSlab 0 (Finite 400000) 0 # tl NEW_REGIME_SLABS) = 7"
    using calculateTax_slab_iteration
      [of 0 "[]" 7 0 "mkSlab 0 (Finite 400000) 0" "tl NEW_REGIME_SLABS" 0]
    by simp
  have b: "calculateTax_loop 0 500000 (mkSlab 0 (Finite 400000) 0 # tl NEW_REGIME_SLABS) =
       calculateTax_loop 0 99999 (tl NEW_REGIME_SLABS)"
    using calculateTax_slab_iteration
      [of 0 "[]" 0 500000 "mkSlab 0 (Finite 400000) 0" "tl NEW_REGIME_SLABS" 400000]
    by (simp add: mkSlab_def applySlab_def)
  have c: "calculateTax_loop 0 3000000 [mkSlab 2400001 Infinity 30, mkSlab 0 (Finite 9) 50] =
       900000"
    using calculateTax_slab_iteration
      [of 0 "[]" 0 3000000 "mkSlab 2400001 Infinity 30" "[mkSlab 0 (Finite 9) 50]" 0]
    by (simp add: mkSlab_def applySlab_def)
  from a b c show ?thesis by blast
qed

section \<open>Section 80C and the home loan\<close>

text \<open>
  Claim C7. For all inputs, the old-regime taxable income is the income less the
  standard deduction, less \<open>min(section80C + homeLoanPrincipal, 150000)\<close> as its Section
  80C term, less the other deductions, floored at 0: the Section 80C term that
  \<open>calculateOldRegimeTax\<close> subtracts is \<open>min(section80C + homeLoanPrincipal, 150000)\<close>,
  whatever the two amounts are. For 100000 and 100000 it is 150000, and 150000 (not
  200000) is what leaves the taxable income.
\<close>

theorem combined80CDeduction_cap:
  "combined80CDeduction s =
     min (section80C (deductions s) + principal (homeLoan (deductions s))) 150000
   \<and> oldRegimeTaxableIncome s inc =
       max 0 (inc - 50000
              - min (section80C (deductions s) + principal (homeLoan (deductions s))) 150000
              - section80DDeduction s
              - min (section80CCD (deductions s)) 50000
              - min (section80TTA (deductions s)) 10000
              - min (section80G (deductions s)) 100000
              - calculateHRA s - nps (deductions s) - educationLoan (deductions s)
              - min (interest (homeLoan (deductions s))) 200000)
   \<and> calculateOldRegimeTax s inc =
       calculateTax
         (max 0 (inc - 50000
              - min (section80C (deductions s) + principal (homeLoan (deductions s))) 150000
              - section80DDeduction s
              - min (section80CCD (deductions s)) 50000
              - min (section80TTA (deductions s)) 10000
              - min (section80G (deductions s)) 100000
              - calculateHRA s - nps (deductions s) - educationLoan (deductions s)
              - min (interest (homeLoan (deductions s))) 200000))
         OLD_REGIME_SLABS
   \<and> combined80CDeduction
       (initialState\<lparr>deductions := initialDeductions
          \<lparr>section80C := 100000, homeLoan := \<lparr>principal = 100000, interest = 0\<rparr>\<rparr>\<rparr>)
     = 150000
   \<and> oldRegimeTaxableIncome
       (initialState\<lparr>deductions := initialDeductions
          \<lparr>section80C := 100000, homeLoan := \<lparr>principal = 100000, interest = 0\<rparr>\<rparr>\<rparr>)
       1000000
     = 800000
   \<and> oldRegimeTaxableIncome initialState 1000000 = 950000"
proof -
  have a: "combined80CDeduction s =
     min (section80C (deductions s) + principal (homeLoan (deductions s))) 150000"
    by (simp add: combined80CDeduction_def principalDeduction_plus_section80C
          SECTION_80C_LIMIT_def)
  have b: "oldRegimeTaxableIncome s inc =
       max 0 (inc - 50000
              - min (section80C (deductions s) + principal (homeLoan (deductions s))) 150000
              - section80DDeduction s
              - min (section80CCD (deductions s)) 50000
              - min (section80TTA (deductions s)) 10000
              - min (section80G (deductions s)) 100000
              - calculateHRA s - nps (deductions s) - educationLoan (deductions s)
              - min (interest (homeLoan (deductions s))) 200000)"
    by (simp add: oldRegimeTaxableIncome_def a interestDeduction_eq limit_defs Let_def)
  have c: "calculateOldRegimeTax s inc =
       calculateTax
         (max 0 (inc - 50000
              - min (section80C (deductions s) + principal (homeLoan (deductions s))) 150000
              - section80DDeduction s
              - min (section80CCD (deductions s)) 50000
              - min (section80TTA (deductions s)) 10000
              - min (section80G (deductions s)) 100000
              - calculateHRA s - nps (deductions s) - educationLoan (deductions s)
              - min (interest (homeLoan (deductions s))) 200000))
         OLD_REGIME_SLABS"
    by (simp only: calculateOldRegimeTax_def b)
  have d: "combined80CDeduction
       (initialState\<lparr>deductions := initialDeductions
          \<lparr>section80C := 100000, homeLoan := \<lparr>principal = 100000, interest = 0\<rparr>\<rparr>\<rparr>)
     = 150000"
    by (simp add: combined80CDeduction_def calculateHomeLoanDeductions_def
          limit_defs initial_defs Let_def)
  have e: "oldRegimeTaxableIncome
       (initialState\<lparr>deductions := initialDeductions
          \<lparr>section80C := 100000, homeLoan := \<lparr>principal = 100000, interest = 0\<rparr>\<rparr>\<rparr>)
       1000000
     = 800000"
    by (simp add: combined80CDeduction_def calculateHomeLoanDeductions_def
        oldRegimeTaxableIncome_def section80DDeduction_def calculateHRA_def
        limit_defs initial_defs Let_def)
  have f: "oldRegimeTaxableIncome initialState 1000000 = 950000"
    by (simp add: combined80CDeduction_def calculateHomeLoanDeductions_def
        oldRegimeTaxableIncome_def section80DDeduction_def calculateHRA_def
        limit_defs initial_defs Let_def)
  from a b c d e f show ?thesis by blast
qed

text \<open>
  Claim C10. There are non-negative inputs with \<open>section80C\<close> above 150000 and a
  positive home-loan principal for which the principal component returned by
  \<open>calculateHomeLoanDeductions\<close>, \<open>min(principal, 150000 - section80C)\<close>, is negative.
\<close>

theorem principalDeduction_can_be_negative:
  "\<exists>s. 0 \<le> interest (homeLoan (deductions s))
       \<and> 150000 < section80C (deductions s)
       \<and> 0 < principal (homeLoan (deductions s))
       \<and> principalDeduction (calculateHomeLoanDeductions s) =
           min (principal (homeLoan (deductions s))) (150000 - section80C (deductions s))
       \<and> principalDeduction (calculateHomeLoanDeductions s) < 0"
proof (rule exI [of _ "initialState\<lparr>deductions := initialDeductions
          \<lparr>section80C := 200000, homeLoan := \<lparr>principal = 50000, interest = 0\<rparr>\<rparr>\<rparr>"])
  show "0 \<le> interest (homeLoan (deductions (initialState\<lparr>deductions := initialDeductions
          \<lparr>section80C := 200000, homeLoan := \<lparr>principal = 50000, interest = 0\<rparr>\<rparr>\<rparr>)))
       \<and> 150000 < section80C (deductions (initialState\<lparr>deductions := initialDeductions
          \<lparr>section80C := 200000, homeLoan := \<lparr>principal = 50000, interest = 0\<rparr>\<rparr>\<rparr>))
       \<and> 0 < principal (homeLoan (deductions (initialState\<lparr>deductions := initialDeductions
          \<lparr>section80C := 200000, homeLoan := \<lparr>principal = 50000, interest = 0\<rparr>\<rparr>\<rparr>)))
       \<and> principalDeduction (calculateHomeLoanDeductions (initialState\<lparr>deductions := initialDeductions
          \<lparr>section80C := 200000, homeLoan := \<lparr>principal = 50000, interest = 0\<rparr>\<rparr>\<rparr>)) =
           min (principal (homeLoan (deductions (initialState\<lparr>deductions := initialDeductions
          \<lparr>section80C := 200000, homeLoan := \<lparr>principal = 50000, interest = 0\<rparr>\<rparr>\<rparr>))))
             (150000 - section80C (deductions (initialState\<lparr>deductions := initialDeductions
          \<lparr>section80C := 200000, homeLoan := \<lparr>principal = 50000, interest = 0\<rparr>\<rparr>\<rparr>)))
       \<and> principalDeduction (calculateHomeLoanDeductions (initialState\<lparr>deductions := initialDeductions
          \<lparr>section80C := 200000, homeLoan := \<lparr>principal = 50000, interest = 0\<rparr>\<rparr>\<rparr>)) < 0"
    by (simp add: calculateHomeLoanDeductions_def SECTION_80C_LIMIT_def initial_defs)
qed

section \<open>House rent allowance\<close>

text \<open>
  Claim C8. For non-negative basic salary, HRA received and rent paid, the HRA exemption
  is the minimum of the HRA received, 50% (metro) or 40% (otherwise) of the basic salary,
  and \<open>max(0, rentPaid - 0.10 * basic)\<close>, and it is not negative.
\<close>

theorem calculateHRA_least_of_three:
  assumes "0 \<le> basic (salaryDetails s)" and "0 \<le> hraReceived (salaryDetails s)"
    and "0 \<le> rentPaid (salaryDetails s)"
  shows "calculateHRA s =
           Min {hraReceived (salaryDetails s),
                (if metroCity (salaryDetails s) then 50 else 40) * basic (salaryDetails s) / 100,
                max 0 (rentPaid (salaryDetails s) - 10 * basic (salaryDetails s) / 100)}
         \<and> 0 \<le> calculateHRA s"
  using assms by (simp add: calculateHRA_def Let_def)

theorem calculateHRA_least_of_three_witness:
  "calculateHRA
     (initialState\<lparr>salaryDetails :=
        \<lparr>basic = 50000, hraReceived = 25000, rentPaid = 20000, metroCity = True\<rparr>\<rparr>)
   = 15000"
proof -
  let ?s = "initialState\<lparr>salaryDetails :=
        \<lparr>basic = 50000, hraReceived = 25000, rentPaid = 20000, metroCity = True\<rparr>\<rparr>"
  have h: "0 \<le> basic (salaryDetails ?s)" "0 \<le> hraReceived (salaryDetails ?s)"
    "0 \<le> rentPaid (salaryDetails ?s)"
    by simp_all
  from calculateHRA_least_of_three [OF h] show ?thesis
    by simp
qed

section \<open>Recommendation\<close>

text \<open>
  Claim C9. The report recommends the new regime exactly when the new-regime tax is
  strictly lower than the old-regime tax; when the two are equal it recommends the old
  regime.
\<close>

theorem recommendedRegime_strict:
  "(recommendedRegime s = NewRegime \<longleftrightarrow> newRegimeTax s < oldRegimeTax s)
   \<and> (newRegimeTax s = oldRegimeTax s \<longrightarrow> recommendedRegime s = OldRegime)"
  by (simp add: recommendedRegime_def)

theorem recommendedRegime_strict_witness:
  "newRegimeTax initialState = oldRegimeTax initialState
   \<and> recommendedRegime initialState = OldRegime
   \<and> newRegimeTax (initialState\<lparr>newRegimeTax := 59999.9, oldRegimeTax := 72499.85\<rparr>)
       < oldRegimeTax (initialState\<lparr>newRegimeTax := 59999.9, oldRegimeTax := 72499.85\<rparr>)
   \<and> recommendedRegime (initialState\<lparr>newRegimeTax := 59999.9, oldRegimeTax := 72499.85\<rparr>)
       = NewRegime"
proof -
  have e: "newRegimeTax initialState = oldRegimeTax initialState"
    by (simp add: initialState_def)
  have l: "newRegimeTax (initialState\<lparr>newRegimeTax := 59999.9, oldRegimeTax := 72499.85\<rparr>)
       < oldRegimeTax (initialState\<lparr>newRegimeTax := 59999.9, oldRegimeTax := 72499.85\<rparr>)"
    by simp
  from e l recommendedRegime_strict [of initialState]
    recommendedRegime_strict
      [of "initialState\<lparr>newRegimeTax := 59999.9, oldRegimeTax := 72499.85\<rparr>"]
  show ?thesis by blast
qed

end
